theory Spec2Isabelle
  imports Main
begin

section \<open>The idle controller of ng2-idle (src/idle.ts)\<close>

subsection \<open>Data model\<close>

text \<open>
  The enum \<^verbatim>\<open>AutoResume\<close> of idle.ts (lines 10-23). The spec calls the three members
  Disabled, ResumeAlways (\<^verbatim>\<open>idle\<close>) and ResumeOnlyIfNotIdle (\<^verbatim>\<open>notIdle\<close>).
\<close>

datatype AutoResume = AutoResume_disabled | AutoResume_idle | AutoResume_notIdle

text \<open>
  The field \<^verbatim>\<open>countdown: number\<close> has no initialiser, so it starts as \<^verbatim>\<open>undefined\<close>, and
  \<^verbatim>\<open>undefined--\<close> is \<^verbatim>\<open>NaN\<close>. Proper numbers are integer seconds, as in the data model of
  the spec.
\<close>

datatype jsnum = Undefined | NaN | Num int

fun le0 :: "jsnum \<Rightarrow> bool" where
  \<comment> \<open>\<^verbatim>\<open>x <= 0\<close>: false when \<^verbatim>\<open>x\<close> is \<^verbatim>\<open>undefined\<close> or \<^verbatim>\<open>NaN\<close>\<close>
  "le0 (Num n) = (n \<le> 0)"
| "le0 Undefined = False"
| "le0 NaN = False"

fun decr :: "jsnum \<Rightarrow> jsnum" where
  \<comment> \<open>the value stored by \<^verbatim>\<open>x--\<close>\<close>
  "decr (Num n) = Num (n - 1)"
| "decr Undefined = NaN"
| "decr NaN = NaN"

text \<open>
  What the five event emitters of the class emit, in one sequence. The emitters for idle
  start, idle end and timeout are always called with \<^verbatim>\<open>null\<close>; the type \<open>'p\<close> is the
  type of the arguments an interrupt passes through.
\<close>

datatype 'p event =
    OnIdleStart
  | OnIdleEnd
  | OnTimeoutWarning jsnum
  | OnTimeout
  | OnInterrupt 'p

text \<open>The two closures the class hands to \<^verbatim>\<open>setInterval\<close> (lines 160 and 216).\<close>

datatype callback = ToggleState | DoCountdown

text \<open>
  A repeating timer of the host environment: its handle, its period and the time it is
  next due (both in milliseconds), and what it calls.
\<close>

record timer =
  tid :: nat
  period :: int
  due :: int
  callback :: callback

text \<open>The two field names \<^verbatim>\<open>safeClearInterval\<close> is called with.\<close>

datatype handle_name = IdleHandle | TimeoutHandle

text \<open>
  Modelled from the spec: the classes \<^verbatim>\<open>InterruptSource\<close> and \<^verbatim>\<open>Interrupt\<close>
  (interruptsource.ts, interrupt.ts) are imported by idle.ts and are not among the source
  files. Section 4.2 of the spec: an interrupt subscription wraps one interrupt source and
  has a paused/active flag; \<^verbatim>\<open>resume()\<close>: if not already active, calls the source's attach
  hook and marks active; \<^verbatim>\<open>pause()\<close>: if active, calls the source's detach hook and marks
  inactive; \<^verbatim>\<open>unsubscribe()\<close> disconnects the listener registration. A source is known by
  its identity (a number); a call of one of its hooks is recorded whether or not the embedder
  supplied a callback for it.
\<close>

type_synonym InterruptSource = nat

datatype hook_call = Attach InterruptSource | Detach InterruptSource

record Interrupt =
  source :: InterruptSource
  active :: bool
  listening :: bool

text \<open>
  The fields of the class \<^verbatim>\<open>Idle\<close> (lines 30-38), followed by the environment the class
  acts on: the notifications emitted so far, the pending timers of the host, the next timer
  handle the host will give out, the host's clock in milliseconds, and the hook calls the
  interrupt sources have received. A timer handle is a positive number, hence truthy;
  \<open>None\<close> stands for \<^verbatim>\<open>undefined\<close> and \<^verbatim>\<open>null\<close>.
\<close>

record 'p world =
  idle :: int
  timeoutVal :: int
  autoResume :: AutoResume
  interrupts :: "Interrupt list"
  running :: bool
  idling :: bool
  idleHandle :: "nat option"
  timeoutHandle :: "nat option"
  countdown :: jsnum
  emitted :: "'p event list"
  timers :: "timer list"
  nextHandle :: nat
  now :: int
  hookCalls :: "hook_call list"

text \<open>The only error the class throws is a plain \<^verbatim>\<open>Error\<close> with a message.\<close>

datatype error = Error string

definition setTimeout_message :: string where
  "setTimeout_message =
     CHR 0x27 # ''seconds'' @ CHR 0x27 # '' can only be '' @ CHR 0x27 # ''false'' @
     CHR 0x27 # '' or a positive number.''"

definition setIdle_message :: string where
  "setIdle_message = CHR 0x27 # ''seconds'' @ CHR 0x27 # '' must be greater zero''"

text \<open>The argument of \<^verbatim>\<open>setTimeout\<close>, of type \<^verbatim>\<open>number | boolean\<close>.\<close>

datatype seconds_arg = Boolean bool | Number int

subsection \<open>The host environment\<close>

definition emit :: "'p event \<Rightarrow> 'p world \<Rightarrow> 'p world" where
  "emit e w = w\<lparr>emitted := emitted w @ [e]\<rparr>"

definition setInterval :: "callback \<Rightarrow> int \<Rightarrow> 'p world \<Rightarrow> nat \<times> 'p world" where
  "setInterval cb ms w =
     (nextHandle w,
      w\<lparr>timers := timers w @ [\<lparr>tid = nextHandle w, period = ms, due = now w + ms, callback = cb\<rparr>],
        nextHandle := Suc (nextHandle w)\<rparr>)"

definition clearInterval :: "nat \<Rightarrow> 'p world \<Rightarrow> 'p world" where
  "clearInterval h w = w\<lparr>timers := filter (\<lambda>t. tid t \<noteq> h) (timers w)\<rparr>"

subsection \<open>Configuration\<close>

text \<open>The state of a controller right after construction, in a host that has no timers.\<close>

definition new_Idle :: "'p world" where
  "new_Idle =
     \<lparr>idle = 20 * 60, timeoutVal = 30, autoResume = AutoResume_idle, interrupts = [],
      running = False, idling = False, idleHandle = None, timeoutHandle = None,
      countdown = Undefined, emitted = [], timers = [], nextHandle = 1, now = 0,
      hookCalls = []\<rparr>"

definition getTimeout :: "'p world \<Rightarrow> int" where
  "getTimeout w = timeoutVal w"

text \<open>
  A setter that throws has assigned nothing; the result then carries the error together with
  the state at the throw.
\<close>

definition setTimeout ::
  "seconds_arg \<Rightarrow> 'p world \<Rightarrow> (error \<times> 'p world) + (int \<times> 'p world)" where
  "setTimeout seconds w =
     (case seconds of
        Boolean False \<Rightarrow> Inr (0, w\<lparr>timeoutVal := 0\<rparr>)
      | Number n \<Rightarrow>
          if n \<ge> 0 then Inr (n, w\<lparr>timeoutVal := n\<rparr>)
          else Inl (Error setTimeout_message, w)
      | Boolean True \<Rightarrow> Inl (Error setTimeout_message, w))"

definition getIdle :: "'p world \<Rightarrow> int" where
  "getIdle w = idle w"

definition setIdle :: "int \<Rightarrow> 'p world \<Rightarrow> (error \<times> 'p world) + (int \<times> 'p world)" where
  "setIdle seconds w =
     (if seconds \<le> 0 then Inl (Error setIdle_message, w)
      else Inr (seconds, w\<lparr>idle := seconds\<rparr>))"

definition getAutoResume :: "'p world \<Rightarrow> AutoResume" where
  "getAutoResume w = autoResume w"

definition setAutoResume :: "AutoResume \<Rightarrow> 'p world \<Rightarrow> AutoResume \<times> 'p world" where
  "setAutoResume v w = (v, w\<lparr>autoResume := v\<rparr>)"

definition isRunning :: "'p world \<Rightarrow> bool" where
  "isRunning w = running w"

definition isIdling :: "'p world \<Rightarrow> bool" where
  "isIdling w = idling w"

subsection \<open>Interrupt subscriptions\<close>

text \<open>
  Modelled from the spec: the methods of the class \<^verbatim>\<open>Interrupt\<close> (interrupt.ts, not among
  the source files), after section 4.2. The constructor takes the source; a subscription starts
  paused and without a listener.
\<close>

definition new_Interrupt :: "InterruptSource \<Rightarrow> Interrupt" where
  "new_Interrupt src = \<lparr>source = src, active = False, listening = False\<rparr>"

definition subscribe :: "Interrupt \<Rightarrow> Interrupt" where
  "subscribe sub = sub\<lparr>listening := True\<rparr>"

definition unsubscribe :: "Interrupt \<Rightarrow> Interrupt" where
  "unsubscribe sub = sub\<lparr>listening := False\<rparr>"

definition resume :: "Interrupt \<Rightarrow> 'p world \<Rightarrow> Interrupt \<times> 'p world" where
  "resume sub w =
     (if \<not> active sub
      then (sub\<lparr>active := True\<rparr>, w\<lparr>hookCalls := hookCalls w @ [Attach (source sub)]\<rparr>)
      else (sub, w))"

definition pause :: "Interrupt \<Rightarrow> 'p world \<Rightarrow> Interrupt \<times> 'p world" where
  "pause sub w =
     (if active sub
      then (sub\<lparr>active := False\<rparr>, w\<lparr>hookCalls := hookCalls w @ [Detach (source sub)]\<rparr>)
      else (sub, w))"

text \<open>
  \<^verbatim>\<open>clearInterrupts\<close> (lines 126-133): the loop over \<^verbatim>\<open>this.interrupts\<close>, then the array is
  emptied. The loop returns the subscriptions as it left them, which the controller then
  drops.
\<close>

fun clearInterrupts_loop :: "Interrupt list \<Rightarrow> 'p world \<Rightarrow> Interrupt list \<times> 'p world" where
  "clearInterrupts_loop [] w = ([], w)"
| "clearInterrupts_loop (sub # subs) w =
     (let (sub1, w1) = pause sub w;
          sub2 = unsubscribe sub1;
          (subs', w2) = clearInterrupts_loop subs w1
      in (sub2 # subs', w2))"

definition clearInterrupts :: "'p world \<Rightarrow> 'p world" where
  "clearInterrupts w =
     (let (dropped, w1) = clearInterrupts_loop (interrupts w) w
      in w1\<lparr>interrupts := []\<rparr>)"

text \<open>
  \<^verbatim>\<open>setInterrupts\<close> (lines 101-115): the loop over the sources, each iteration pushing one
  subscription. The listener registered by \<^verbatim>\<open>subscribe\<close> is the closure that calls
  \<^verbatim>\<open>interrupt(args.force, args.innerArgs)\<close>.
\<close>

fun setInterrupts_loop :: "InterruptSource list \<Rightarrow> 'p world \<Rightarrow> 'p world" where
  "setInterrupts_loop [] w = w"
| "setInterrupts_loop (src # sources) w =
     (let sub = new_Interrupt src;
          sub1 = subscribe sub;
          (sub2, w1) = resume sub1 w;
          w2 = w1\<lparr>interrupts := interrupts w1 @ [sub2]\<rparr>
      in setInterrupts_loop sources w2)"

definition setInterrupts :: "InterruptSource list \<Rightarrow> 'p world \<Rightarrow> Interrupt list \<times> 'p world" where
  "setInterrupts sources w =
     (let w1 = clearInterrupts w;
          w2 = setInterrupts_loop sources w1
      in (interrupts w2, w2))"

definition getInterrupts :: "'p world \<Rightarrow> Interrupt list" where
  "getInterrupts w = interrupts w"

subsection \<open>The state machine\<close>

definition get_handle :: "handle_name \<Rightarrow> 'p world \<Rightarrow> nat option" where
  "get_handle hn w = (case hn of IdleHandle \<Rightarrow> idleHandle w | TimeoutHandle \<Rightarrow> timeoutHandle w)"

definition set_handle :: "handle_name \<Rightarrow> nat option \<Rightarrow> 'p world \<Rightarrow> 'p world" where
  "set_handle hn v w =
     (case hn of IdleHandle \<Rightarrow> w\<lparr>idleHandle := v\<rparr> | TimeoutHandle \<Rightarrow> w\<lparr>timeoutHandle := v\<rparr>)"

text \<open>\<^verbatim>\<open>safeClearInterval\<close> (lines 239-244).\<close>

definition safeClearInterval :: "handle_name \<Rightarrow> 'p world \<Rightarrow> 'p world" where
  "safeClearInterval handleName w =
     (case get_handle handleName w of
        None \<Rightarrow> w
      | Some h \<Rightarrow> set_handle handleName None (clearInterval h w))"

text \<open>\<^verbatim>\<open>stop\<close> (lines 166-172).\<close>

definition stop :: "'p world \<Rightarrow> 'p world" where
  "stop w =
     (let w1 = safeClearInterval IdleHandle w;
          w2 = safeClearInterval TimeoutHandle w1
      in w2\<lparr>idling := False, running := False\<rparr>)"

text \<open>\<^verbatim>\<open>timeout\<close> (lines 177-186).\<close>

definition timeout :: "'p world \<Rightarrow> 'p world" where
  "timeout w =
     (let w1 = safeClearInterval IdleHandle w;
          w2 = safeClearInterval TimeoutHandle w1;
          w3 = w2\<lparr>idling := True, running := False, countdown := Num 0\<rparr>
      in emit OnTimeout w3)"

text \<open>\<^verbatim>\<open>doCountdown\<close> (lines 225-237).\<close>

definition doCountdown :: "'p world \<Rightarrow> 'p world" where
  "doCountdown w =
     (if \<not> idling w then w
      else if le0 (countdown w) then timeout w
      else (let w1 = emit (OnTimeoutWarning (countdown w)) w
            in w1\<lparr>countdown := decr (countdown w1)\<rparr>))"

text \<open>\<^verbatim>\<open>toggleState\<close> (lines 207-223).\<close>

definition toggleState :: "'p world \<Rightarrow> 'p world" where
  "toggleState w =
     (let w1 = w\<lparr>idling := \<not> idling w\<rparr>;
          w2 = (if idling w1 then
                  (let w3 = emit OnIdleStart w1
                   in if timeoutVal w3 > 0 then
                        (let w4 = w3\<lparr>countdown := Num (timeoutVal w3)\<rparr>;
                             w5 = doCountdown w4;
                             (h, w6) = setInterval DoCountdown 1000 w5
                         in w6\<lparr>timeoutHandle := Some h\<rparr>)
                      else w3)
                else emit OnIdleEnd w1)
      in safeClearInterval IdleHandle w2)"

text \<open>\<^verbatim>\<open>watch\<close> (lines 150-161).\<close>

definition watch :: "'p world \<Rightarrow> 'p world" where
  "watch w =
     (let w1 = safeClearInterval IdleHandle w;
          w2 = safeClearInterval TimeoutHandle w1;
          w3 = (if idling w2 then toggleState w2 else w2);
          w4 = w3\<lparr>running := True\<rparr>;
          (h, w5) = setInterval ToggleState (idle w4 * 1000) w4
      in w5\<lparr>idleHandle := Some h\<rparr>)"

text \<open>
  \<^verbatim>\<open>interrupt\<close> (lines 193-205). Both parameters are optional: an omitted \<^verbatim>\<open>force\<close> is
  \<open>None\<close>, and the test is \<^verbatim>\<open>force === true\<close>.
\<close>

definition interrupt :: "bool option \<Rightarrow> 'p \<Rightarrow> 'p world \<Rightarrow> 'p world" where
  "interrupt force eventArgs w =
     (if \<not> running w then w
      else (let w1 = emit (OnInterrupt eventArgs) w
            in if force = Some True \<or> autoResume w1 = AutoResume_idle \<or>
                  (autoResume w1 = AutoResume_notIdle \<and> \<not> idling w1)
               then watch w1
               else w1))"

text \<open>\<^verbatim>\<open>ngOnDestroy\<close> (lines 249-252).\<close>

definition ngOnDestroy :: "'p world \<Rightarrow> 'p world" where
  "ngOnDestroy w = clearInterrupts (stop w)"

subsection \<open>Running the timers\<close>

text \<open>
  The host runs one callback at a time, to completion. Of the pending timers the one due
  first fires first, and of two due at the same time the one set first. A timer set with
  \<^verbatim>\<open>setInterval\<close> stays pending after it fires, due again one period later, until it is
  cleared.
\<close>

definition fire :: "callback \<Rightarrow> 'p world \<Rightarrow> 'p world" where
  "fire cb w = (case cb of ToggleState \<Rightarrow> toggleState w | DoCountdown \<Rightarrow> doCountdown w)"

fun next_timer :: "timer list \<Rightarrow> timer option" where
  "next_timer [] = None"
| "next_timer (t # ts) =
     (case next_timer ts of
        None \<Rightarrow> Some t
      | Some u \<Rightarrow> if due u < due t then Some u else Some t)"

definition reschedule :: "timer \<Rightarrow> timer list \<Rightarrow> timer list" where
  "reschedule t ts = map (\<lambda>u. if tid u = tid t then u\<lparr>due := due u + period u\<rparr> else u) ts"

text \<open>
  \<open>run_timers fuel until w\<close> lets the clock run to the time \<open>until\<close>, firing every timer
  that comes due on the way. A timer of period zero or less would fire for ever without the
  clock moving on; the fuel bounds the number of firings, and \<open>None\<close> says that it ran out.
\<close>

fun run_timers :: "nat \<Rightarrow> int \<Rightarrow> 'p world \<Rightarrow> 'p world option" where
  "run_timers 0 until w = None"
| "run_timers (Suc fuel) until w =
     (case next_timer (timers w) of
        None \<Rightarrow> Some (w\<lparr>now := until\<rparr>)
      | Some t \<Rightarrow>
          if until < due t then Some (w\<lparr>now := until\<rparr>)
          else run_timers fuel until
                 (fire (callback t) (w\<lparr>now := due t, timers := reschedule t (timers w)\<rparr>)))"

text \<open>Let \<open>ms\<close> milliseconds pass.\<close>

definition advance :: "nat \<Rightarrow> int \<Rightarrow> 'p world \<Rightarrow> 'p world option" where
  "advance fuel ms w = run_timers fuel (now w + ms) w"

subsection \<open>Observing a run\<close>

text \<open>The timers that are left once both handles of the controller have been cleared.\<close>

definition others :: "'p world \<Rightarrow> timer list" where
  "others w =
     filter (\<lambda>t. Some (tid t) \<noteq> idleHandle w \<and> Some (tid t) \<noteq> timeoutHandle w) (timers w)"

text \<open>What was emitted, and which hooks were called, between an earlier state and a later one.\<close>

definition emitted_since :: "'p world \<Rightarrow> 'p world \<Rightarrow> 'p event list" where
  "emitted_since w w' = drop (length (emitted w)) (emitted w')"

definition hookCalls_since :: "'p world \<Rightarrow> 'p world \<Rightarrow> hook_call list" where
  "hookCalls_since w w' = drop (length (hookCalls w)) (hookCalls w')"

text \<open>
  \<open>tick_seconds fuel n w\<close> lets \<open>n\<close> seconds pass, one at a time, and gives for each
  second what was emitted during it and whether the controller is running at its end. The
  fuel is the bound on the firings within one second.
\<close>

fun tick_seconds :: "nat \<Rightarrow> nat \<Rightarrow> 'p world \<Rightarrow> ('p event list \<times> bool) list option" where
  "tick_seconds fuel 0 w = Some []"
| "tick_seconds fuel (Suc n) w =
     (case advance fuel 1000 w of
        None \<Rightarrow> None
      | Some w1 \<Rightarrow>
          (case tick_seconds fuel n w1 of
             None \<Rightarrow> None
           | Some obs \<Rightarrow> Some ((emitted_since w w1, running w1) # obs)))"

text \<open>
  A sequence of hook calls in which every detach comes before every attach: once a source
  has been attached, nothing is detached any more.
\<close>

fun detach_before_attach :: "hook_call list \<Rightarrow> bool" where
  "detach_before_attach [] = True"
| "detach_before_attach (Detach src # calls) = detach_before_attach calls"
| "detach_before_attach (Attach src # calls) =
     list_all (\<lambda>c. case c of Attach s \<Rightarrow> True | Detach s \<Rightarrow> False) calls"

section \<open>Properties\<close>

subsection \<open>What the operations do to the state\<close>

lemma safeClearInterval_IdleHandle:
  "safeClearInterval IdleHandle w =
     w\<lparr>idleHandle := None,
       timers := filter (\<lambda>t. Some (tid t) \<noteq> idleHandle w) (timers w)\<rparr>"
  by (cases "idleHandle w")
     (simp_all add: safeClearInterval_def get_handle_def set_handle_def clearInterval_def)

lemma safeClearInterval_TimeoutHandle:
  "safeClearInterval TimeoutHandle w =
     w\<lparr>timeoutHandle := None,
       timers := filter (\<lambda>t. Some (tid t) \<noteq> timeoutHandle w) (timers w)\<rparr>"
  by (cases "timeoutHandle w")
     (simp_all add: safeClearInterval_def get_handle_def set_handle_def clearInterval_def)

lemma stop_eq:
  "stop w =
     w\<lparr>idling := False, running := False, idleHandle := None, timeoutHandle := None,
       timers := others w\<rparr>"
  by (simp add: stop_def others_def safeClearInterval_IdleHandle safeClearInterval_TimeoutHandle
      Let_def conj_commute)

lemma timeout_eq:
  "timeout w =
     w\<lparr>idling := True, running := False, countdown := Num 0,
       idleHandle := None, timeoutHandle := None, timers := others w,
       emitted := emitted w @ [OnTimeout]\<rparr>"
  by (simp add: timeout_def others_def safeClearInterval_IdleHandle
      safeClearInterval_TimeoutHandle emit_def Let_def conj_commute)

lemma watch_eq:
  "watch w =
     w\<lparr>idling := False, running := True,
       idleHandle := Some (nextHandle w), timeoutHandle := None,
       timers := others w @
         [\<lparr>tid = nextHandle w, period = idle w * 1000, due = now w + idle w * 1000,
           callback = ToggleState\<rparr>],
       nextHandle := Suc (nextHandle w),
       emitted := emitted w @ (if idling w then [OnIdleEnd] else [])\<rparr>"
  by (simp add: watch_def toggleState_def setInterval_def others_def
      safeClearInterval_IdleHandle safeClearInterval_TimeoutHandle emit_def Let_def conj_commute)

lemma doCountdown_eq:
  "doCountdown w =
     (if \<not> idling w then w
      else if le0 (countdown w) then timeout w
      else w\<lparr>countdown := decr (countdown w),
             emitted := emitted w @ [OnTimeoutWarning (countdown w)]\<rparr>)"
  by (simp add: doCountdown_def emit_def Let_def)

lemma toggleState_eq:
  "toggleState w =
     (if idling w then
        w\<lparr>idling := False, idleHandle := None,
          timers := filter (\<lambda>t. Some (tid t) \<noteq> idleHandle w) (timers w),
          emitted := emitted w @ [OnIdleEnd]\<rparr>
      else if 0 < timeoutVal w then
        w\<lparr>idling := True, idleHandle := None,
          countdown := Num (timeoutVal w - 1),
          timeoutHandle := Some (nextHandle w),
          timers := filter (\<lambda>t. Some (tid t) \<noteq> idleHandle w) (timers w @
            [\<lparr>tid = nextHandle w, period = 1000, due = now w + 1000,
              callback = DoCountdown\<rparr>]),
          nextHandle := Suc (nextHandle w),
          emitted := emitted w @ [OnIdleStart, OnTimeoutWarning (Num (timeoutVal w))]\<rparr>
      else
        w\<lparr>idling := True, idleHandle := None,
          timers := filter (\<lambda>t. Some (tid t) \<noteq> idleHandle w) (timers w),
          emitted := emitted w @ [OnIdleStart]\<rparr>)"
  by (simp add: toggleState_def doCountdown_def setInterval_def
      safeClearInterval_IdleHandle emit_def Let_def)

lemma clearInterrupts_loop_eq:
  "clearInterrupts_loop subs w =
     (map (\<lambda>sub. sub\<lparr>active := False, listening := False\<rparr>) subs,
      w\<lparr>hookCalls := hookCalls w @ map (\<lambda>sub. Detach (source sub)) (filter active subs)\<rparr>)"
  by (induction subs arbitrary: w) (simp_all add: pause_def unsubscribe_def)

lemma clearInterrupts_eq:
  "clearInterrupts w =
     w\<lparr>interrupts := [],
       hookCalls := hookCalls w @
         map (\<lambda>sub. Detach (source sub)) (filter active (interrupts w))\<rparr>"
  by (simp add: clearInterrupts_def clearInterrupts_loop_eq)

lemma setInterrupts_loop_eq:
  "setInterrupts_loop sources w =
     w\<lparr>interrupts := interrupts w @
         map (\<lambda>src. \<lparr>source = src, active = True, listening = True\<rparr>) sources,
       hookCalls := hookCalls w @ map Attach sources\<rparr>"
  by (induction sources arbitrary: w)
     (simp_all add: new_Interrupt_def subscribe_def resume_def)

lemma setInterrupts_loop_append:
  "setInterrupts_loop (xs @ ys) w = setInterrupts_loop ys (setInterrupts_loop xs w)"
  by (induction xs arbitrary: w) (simp_all add: Let_def split: prod.splits)

lemma detach_before_attach_append:
  "detach_before_attach (map (\<lambda>sub. Detach (source sub)) subs @ map Attach sources)"
proof (induction subs)
  case Nil
  show ?case by (cases sources) (simp_all add: list_all_iff)
next
  case (Cons sub subs)
  then show ?case by simp
qed

subsection \<open>Construction and configuration\<close>

text \<open>
  C10. A freshly constructed controller has an idle duration of 1200 seconds (20 minutes), a
  timeout duration of 30 seconds, the auto-resume policy \<^verbatim>\<open>AutoResume.idle\<close> (ResumeAlways),
  no interrupt subscriptions, and is neither running nor idling: nothing is scheduled until
  \<^verbatim>\<open>watch()\<close> is called, which makes it run.
\<close>

theorem new_Idle_defaults:
  "getIdle new_Idle = 1200 \<and> getIdle new_Idle = 20 * 60 \<and>
   getTimeout new_Idle = 30 \<and>
   getAutoResume new_Idle = AutoResume_idle \<and>
   getInterrupts new_Idle = [] \<and>
   \<not> isRunning new_Idle \<and>
   \<not> isIdling new_Idle \<and>
   idleHandle new_Idle = None \<and> timeoutHandle new_Idle = None \<and> timers new_Idle = [] \<and>
   isRunning (watch new_Idle)"
  by (simp add: new_Idle_def getIdle_def getTimeout_def getAutoResume_def getInterrupts_def
      isRunning_def isIdling_def watch_eq)

text \<open>
  C5. \<^verbatim>\<open>setIdle(seconds)\<close> throws exactly when \<open>seconds \<le> 0\<close>, and then it has changed
  nothing; for every \<open>seconds > 0\<close> it returns \<open>seconds\<close> and stores it in the field
  \<^verbatim>\<open>idle\<close>, no other field changes, and \<^verbatim>\<open>getIdle()\<close> then returns \<open>seconds\<close>.
\<close>

theorem setIdle_spec:
  "(isl (setIdle seconds w) \<longleftrightarrow> seconds \<le> 0) \<and>
   (seconds \<le> 0 \<longrightarrow> setIdle seconds w = Inl (Error setIdle_message, w)) \<and>
   (0 < seconds \<longrightarrow>
      setIdle seconds w = Inr (seconds, w\<lparr>idle := seconds\<rparr>) \<and>
      getIdle (w\<lparr>idle := seconds\<rparr>) = seconds)"
  by (simp add: setIdle_def getIdle_def)

theorem setIdle_spec_witness:
  "setIdle 5 (new_Idle :: unit world) = Inr (5, new_Idle\<lparr>idle := 5\<rparr>) \<and>
   getIdle ((new_Idle :: unit world)\<lparr>idle := 5\<rparr>) = 5 \<and>
   setIdle 0 (new_Idle :: unit world) = Inl (Error setIdle_message, new_Idle) \<and>
   setIdle (- 1) (new_Idle :: unit world) = Inl (Error setIdle_message, new_Idle)"
  using setIdle_spec [of 5 "new_Idle :: unit world"]
    setIdle_spec [of 0 "new_Idle :: unit world"]
    setIdle_spec [of "- 1" "new_Idle :: unit world"]
  by simp

text \<open>
  C6. \<^verbatim>\<open>setTimeout(false)\<close> stores and returns 0; \<^verbatim>\<open>setTimeout(n)\<close> for a number
  \<open>n \<ge> 0\<close> stores and returns \<open>n\<close>; for a negative number and for the one other value of
  the parameter's type, \<^verbatim>\<open>true\<close>, it throws. Whenever it throws, the state, and with it the
  stored timeout, is as it was.
\<close>

theorem setTimeout_spec:
  "setTimeout (Boolean False) w = Inr (0, w\<lparr>timeoutVal := 0\<rparr>) \<and>
   getTimeout (w\<lparr>timeoutVal := 0\<rparr>) = 0 \<and>
   (0 \<le> n \<longrightarrow>
      setTimeout (Number n) w = Inr (n, w\<lparr>timeoutVal := n\<rparr>) \<and>
      getTimeout (w\<lparr>timeoutVal := n\<rparr>) = n) \<and>
   (n < 0 \<longrightarrow> setTimeout (Number n) w = Inl (Error setTimeout_message, w)) \<and>
   setTimeout (Boolean True) w = Inl (Error setTimeout_message, w) \<and>
   (\<forall>a e w'. setTimeout a w = Inl (e, w') \<longrightarrow> w' = w \<and> getTimeout w' = getTimeout w)"
  by (auto simp add: setTimeout_def getTimeout_def split: seconds_arg.splits bool.splits if_splits)

theorem setTimeout_spec_witness:
  "setTimeout (Number 3) (new_Idle :: unit world) = Inr (3, new_Idle\<lparr>timeoutVal := 3\<rparr>) \<and>
   getTimeout ((new_Idle :: unit world)\<lparr>timeoutVal := 3\<rparr>) = 3 \<and>
   setTimeout (Number 0) (new_Idle :: unit world) = Inr (0, new_Idle\<lparr>timeoutVal := 0\<rparr>) \<and>
   setTimeout (Number (- 5)) (new_Idle :: unit world) = Inl (Error setTimeout_message, new_Idle)"
  using setTimeout_spec [of "new_Idle :: unit world" 3]
    setTimeout_spec [of "new_Idle :: unit world" 0]
    setTimeout_spec [of "new_Idle :: unit world" "- 5"]
  by simp

subsection \<open>Lifecycle operations\<close>

text \<open>
  C3. From every state, \<^verbatim>\<open>timeout()\<close> clears both timer handles and takes their timers off
  the host, sets \<^verbatim>\<open>idling\<close> to true, \<^verbatim>\<open>running\<close> to false and \<^verbatim>\<open>countdown\<close> to 0, and
  emits the timeout notification (which has no payload) once; nothing else changes.
\<close>

theorem timeout_spec:
  "timeout w =
     w\<lparr>idling := True, running := False, countdown := Num 0,
       idleHandle := None, timeoutHandle := None,
       timers := filter (\<lambda>t. Some (tid t) \<noteq> idleHandle w \<and> Some (tid t) \<noteq> timeoutHandle w)
                   (timers w),
       emitted := emitted w @ [OnTimeout]\<rparr>"
  by (simp add: timeout_eq others_def)

theorem timeout_spec_witness:
  "timeout (watch (new_Idle :: unit world)) =
     new_Idle\<lparr>idling := True, running := False, countdown := Num 0, nextHandle := 2,
       emitted := [OnTimeout]\<rparr>"
  using timeout_spec [of "watch (new_Idle :: unit world)"]
  by (simp add: watch_eq others_def new_Idle_def)

text \<open>
  C4. From every state, \<^verbatim>\<open>watch()\<close> clears both timer handles and takes their timers off the
  host; if the controller was idling it emits the idle-end notification, and in any case
  \<^verbatim>\<open>idling\<close> is false afterwards; it sets \<^verbatim>\<open>running\<close> to true and sets a new timer with a
  period of \<^verbatim>\<open>idle\<close> seconds, kept in \<^verbatim>\<open>idleHandle\<close>, whose firing calls
  \<^verbatim>\<open>toggleState\<close>; nothing else changes.
\<close>

theorem watch_spec:
  "watch w =
     w\<lparr>idling := False, running := True,
       idleHandle := Some (nextHandle w), timeoutHandle := None,
       timers := filter (\<lambda>t. Some (tid t) \<noteq> idleHandle w \<and> Some (tid t) \<noteq> timeoutHandle w)
                   (timers w) @
         [\<lparr>tid = nextHandle w, period = idle w * 1000, due = now w + idle w * 1000,
           callback = ToggleState\<rparr>],
       nextHandle := Suc (nextHandle w),
       emitted := emitted w @ (if idling w then [OnIdleEnd] else [])\<rparr> \<and>
   fire (callback (last (timers (watch w)))) = toggleState"
  by (simp add: watch_eq others_def fire_def fun_eq_iff)

theorem watch_spec_witness:
  "watch (timeout (watch (new_Idle :: unit world))) =
     new_Idle\<lparr>running := True, countdown := Num 0, idleHandle := Some 2,
       timers := [\<lparr>tid = 2, period = 1200000, due = 1200000, callback = ToggleState\<rparr>],
       nextHandle := 3, emitted := [OnTimeout, OnIdleEnd]\<rparr>"
  using watch_spec [of "timeout (watch (new_Idle :: unit world))"]
  by (simp add: watch_eq timeout_eq others_def new_Idle_def)

text \<open>
  C8. \<^verbatim>\<open>stop()\<close> is idempotent: from every state, stopping twice gives the very state that
  stopping once gives. \<^verbatim>\<open>stop()\<close> emits nothing, and the second call takes no timer off
  the host.
\<close>

theorem stop_idempotent:
  "stop (stop w) = stop w \<and>
   emitted (stop w) = emitted w \<and>
   emitted (stop (stop w)) = emitted (stop w) \<and>
   timers (stop (stop w)) = timers (stop w)"
  by (simp add: stop_eq others_def)

theorem stop_idempotent_witness:
  "stop (stop (watch (new_Idle :: unit world))) = new_Idle\<lparr>nextHandle := 2\<rparr>"
  using stop_idempotent [of "watch (new_Idle :: unit world)"]
  by (simp add: stop_eq watch_eq others_def new_Idle_def)

subsection \<open>Interrupts\<close>

text \<open>
  C7. In every state that is not running, \<^verbatim>\<open>interrupt(force, eventArgs)\<close> changes nothing,
  whatever its arguments: no field of the controller changes, nothing is emitted, and no
  timer is set or cleared.
\<close>

theorem interrupt_not_running:
  "\<not> running w \<Longrightarrow> interrupt force eventArgs w = w"
  by (simp add: interrupt_def)

theorem interrupt_not_running_witness:
  "\<not> running (new_Idle :: unit world) \<and>
   interrupt (Some True) () (new_Idle :: unit world) = new_Idle"
  using interrupt_not_running [of "new_Idle :: unit world" "Some True" "()"]
  by (simp add: new_Idle_def)

text \<open>
  C1. In every running state, \<^verbatim>\<open>interrupt(force, eventArgs)\<close> first emits the interrupt
  notification carrying \<open>eventArgs\<close>. It then calls \<^verbatim>\<open>watch()\<close> if \<open>force\<close> is true, or the
  policy is \<^verbatim>\<open>AutoResume.idle\<close>, or the policy is \<^verbatim>\<open>AutoResume.notIdle\<close> and the controller
  is not idling; otherwise it does nothing more, and the state is the one right after the
  emission. The two cases differ in the state they leave, so \<^verbatim>\<open>watch()\<close> has run exactly in
  the first.
\<close>

theorem interrupt_running:
  "running w \<Longrightarrow>
   interrupt force eventArgs w =
     (if force = Some True \<or> autoResume w = AutoResume_idle \<or>
         (autoResume w = AutoResume_notIdle \<and> \<not> idling w)
      then watch (emit (OnInterrupt eventArgs) w)
      else emit (OnInterrupt eventArgs) w) \<and>
   emitted (interrupt force eventArgs w) =
     emitted w @ OnInterrupt eventArgs #
       (if (force = Some True \<or> autoResume w = AutoResume_idle) \<and> idling w
        then [OnIdleEnd] else []) \<and>
   (interrupt force eventArgs w = emit (OnInterrupt eventArgs) w \<longleftrightarrow>
      \<not> (force = Some True \<or> autoResume w = AutoResume_idle \<or>
         (autoResume w = AutoResume_notIdle \<and> \<not> idling w)))"
proof -
  assume r: "running w"
  let ?w1 = "emit (OnInterrupt eventArgs) w"
  have differ: "watch ?w1 \<noteq> ?w1"
  proof
    assume "watch ?w1 = ?w1"
    then have "nextHandle (watch ?w1) = nextHandle ?w1" by simp
    then show False by (simp add: watch_eq)
  qed
  have step: "interrupt force eventArgs w =
     (if force = Some True \<or> autoResume w = AutoResume_idle \<or>
         (autoResume w = AutoResume_notIdle \<and> \<not> idling w)
      then watch ?w1 else ?w1)"
    using r by (simp add: interrupt_def Let_def emit_def)
  have log: "emitted (interrupt force eventArgs w) =
     emitted w @ OnInterrupt eventArgs #
       (if (force = Some True \<or> autoResume w = AutoResume_idle) \<and> idling w
        then [OnIdleEnd] else [])"
    unfolding step by (auto simp add: watch_eq emit_def)
  from step differ log show ?thesis by simp
qed

theorem interrupt_running_witness:
  "running (toggleState (watch ((new_Idle :: unit world)\<lparr>autoResume := AutoResume_notIdle\<rparr>))) \<and>
   idling (toggleState (watch ((new_Idle :: unit world)\<lparr>autoResume := AutoResume_notIdle\<rparr>))) \<and>
   emitted (interrupt None ()
     (toggleState (watch ((new_Idle :: unit world)\<lparr>autoResume := AutoResume_notIdle\<rparr>)))) =
     [OnIdleStart, OnTimeoutWarning (Num 30), OnInterrupt ()] \<and>
   idling (interrupt None ()
     (toggleState (watch ((new_Idle :: unit world)\<lparr>autoResume := AutoResume_notIdle\<rparr>)))) \<and>
   emitted (interrupt (Some True) ()
     (toggleState (watch ((new_Idle :: unit world)\<lparr>autoResume := AutoResume_notIdle\<rparr>)))) =
     [OnIdleStart, OnTimeoutWarning (Num 30), OnInterrupt (), OnIdleEnd] \<and>
   \<not> idling (interrupt (Some True) ()
     (toggleState (watch ((new_Idle :: unit world)\<lparr>autoResume := AutoResume_notIdle\<rparr>))))"
  using
    interrupt_running
      [of "toggleState (watch ((new_Idle :: unit world)\<lparr>autoResume := AutoResume_notIdle\<rparr>))"
        None "()"]
    interrupt_running
      [of "toggleState (watch ((new_Idle :: unit world)\<lparr>autoResume := AutoResume_notIdle\<rparr>))"
        "Some True" "()"]
  by (simp add: toggleState_eq watch_eq others_def emit_def new_Idle_def)

subsection \<open>Interrupt sources\<close>

text \<open>
  C9. For every list of subscriptions the controller holds and every list of sources,
  \<^verbatim>\<open>setInterrupts(sources)\<close> first pauses and unsubscribes every subscription it holds (each
  active one gets its detach hook called) and empties the list; only then, source by source,
  it creates a subscription, registers the listener and resumes it (the attach hook is
  called). So every detach call comes before every attach call, and at every point of the
  second loop (after the first \<open>k\<close> sources, for any \<open>k\<close>) all the detach calls have been
  made and the controller holds new subscriptions only. The list it returns, which is the
  list the controller holds afterwards, has one active, listening subscription for each
  source, in order.
\<close>

theorem setInterrupts_spec:
  "setInterrupts sources w =
     (map (\<lambda>src. \<lparr>source = src, active = True, listening = True\<rparr>) sources,
      w\<lparr>interrupts := map (\<lambda>src. \<lparr>source = src, active = True, listening = True\<rparr>) sources,
        hookCalls := hookCalls w @
          map (\<lambda>sub. Detach (source sub)) (filter active (interrupts w)) @
          map Attach sources\<rparr>) \<and>
   fst (clearInterrupts_loop (interrupts w) w) =
     map (\<lambda>sub. sub\<lparr>active := False, listening := False\<rparr>) (interrupts w) \<and>
   interrupts (clearInterrupts w) = [] \<and>
   snd (setInterrupts sources w) =
     setInterrupts_loop (drop k sources)
       (setInterrupts_loop (take k sources) (clearInterrupts w)) \<and>
   hookCalls_since w (setInterrupts_loop (take k sources) (clearInterrupts w)) =
     map (\<lambda>sub. Detach (source sub)) (filter active (interrupts w)) @
     map Attach (take k sources) \<and>
   interrupts (setInterrupts_loop (take k sources) (clearInterrupts w)) =
     map (\<lambda>src. \<lparr>source = src, active = True, listening = True\<rparr>) (take k sources) \<and>
   detach_before_attach (hookCalls_since w (snd (setInterrupts sources w)))"
proof -
  have split: "setInterrupts_loop sources (clearInterrupts w) =
      setInterrupts_loop (drop k sources)
        (setInterrupts_loop (take k sources) (clearInterrupts w))"
    using setInterrupts_loop_append [of "take k sources" "drop k sources" "clearInterrupts w"]
    by simp
  have whole: "snd (setInterrupts sources w) = setInterrupts_loop sources (clearInterrupts w)"
    by (simp add: setInterrupts_def Let_def)
  have result: "setInterrupts sources w =
     (map (\<lambda>src. \<lparr>source = src, active = True, listening = True\<rparr>) sources,
      w\<lparr>interrupts := map (\<lambda>src. \<lparr>source = src, active = True, listening = True\<rparr>) sources,
        hookCalls := hookCalls w @
          map (\<lambda>sub. Detach (source sub)) (filter active (interrupts w)) @
          map Attach sources\<rparr>)"
    by (simp add: setInterrupts_def clearInterrupts_eq setInterrupts_loop_eq Let_def)
  have dropped: "fst (clearInterrupts_loop (interrupts w) w) =
     map (\<lambda>sub. sub\<lparr>active := False, listening := False\<rparr>) (interrupts w)"
    by (simp add: clearInterrupts_loop_eq)
  have emptied: "interrupts (clearInterrupts w) = []"
    by (simp add: clearInterrupts_eq)
  have midway: "hookCalls_since w (setInterrupts_loop (take k sources) (clearInterrupts w)) =
     map (\<lambda>sub. Detach (source sub)) (filter active (interrupts w)) @
     map Attach (take k sources)"
    by (simp add: hookCalls_since_def clearInterrupts_eq setInterrupts_loop_eq)
  have held: "interrupts (setInterrupts_loop (take k sources) (clearInterrupts w)) =
     map (\<lambda>src. \<lparr>source = src, active = True, listening = True\<rparr>) (take k sources)"
    by (simp add: clearInterrupts_eq setInterrupts_loop_eq)
  have ordered: "detach_before_attach (hookCalls_since w (snd (setInterrupts sources w)))"
    unfolding result by (simp add: hookCalls_since_def detach_before_attach_append)
  from result dropped emptied split whole midway held ordered show ?thesis
    by (simp only:)
qed

theorem setInterrupts_spec_witness:
  "setInterrupts [7, 8] (snd (setInterrupts [4, 5] (new_Idle :: unit world))) =
     ([\<lparr>source = 7, active = True, listening = True\<rparr>,
       \<lparr>source = 8, active = True, listening = True\<rparr>],
      new_Idle\<lparr>interrupts :=
          [\<lparr>source = 7, active = True, listening = True\<rparr>,
           \<lparr>source = 8, active = True, listening = True\<rparr>],
        hookCalls := [Attach 4, Attach 5, Detach 4, Detach 5, Attach 7, Attach 8]\<rparr>)"
  using setInterrupts_spec [of "[7, 8]" "snd (setInterrupts [4, 5] (new_Idle :: unit world))" 1]
    setInterrupts_spec [of "[4, 5]" "new_Idle :: unit world" 1]
  by (simp add: new_Idle_def)

subsection \<open>The countdown\<close>

text \<open>
  C2, as the code has it. Take a controller with an idle duration of 1 second and a timeout
  duration of 3 seconds, in a host with no timers but the controller's own, and call
  \<^verbatim>\<open>watch()\<close>. During the first second the idle-start notification is emitted and, in the
  same call, the timeout warning carrying 3; during the second, the warning carrying 2;
  during the third, the warning carrying 1; during the fourth, the timeout notification, and
  the controller stops running; during the fifth, nothing. No warning carries 0.
\<close>

theorem countdown_scenario:
  "idle w = 1 \<Longrightarrow> timeoutVal w = 3 \<Longrightarrow> others w = [] \<Longrightarrow>
   tick_seconds (Suc (Suc fuel)) 5 (watch w) =
     Some [([OnIdleStart, OnTimeoutWarning (Num 3)], True),
           ([OnTimeoutWarning (Num 2)], True),
           ([OnTimeoutWarning (Num 1)], True),
           ([OnTimeout], False),
           ([], False)]"
  by (simp add: eval_nat_numeral advance_def fire_def reschedule_def emitted_since_def
      toggleState_eq doCountdown_eq timeout_eq watch_eq others_def)

theorem countdown_scenario_witness:
  "idle ((new_Idle :: unit world)\<lparr>idle := 1, timeoutVal := 3\<rparr>) = 1 \<and>
   timeoutVal ((new_Idle :: unit world)\<lparr>idle := 1, timeoutVal := 3\<rparr>) = 3 \<and>
   others ((new_Idle :: unit world)\<lparr>idle := 1, timeoutVal := 3\<rparr>) = [] \<and>
   tick_seconds 2 5 (watch ((new_Idle :: unit world)\<lparr>idle := 1, timeoutVal := 3\<rparr>)) =
     Some [([OnIdleStart, OnTimeoutWarning (Num 3)], True),
           ([OnTimeoutWarning (Num 2)], True),
           ([OnTimeoutWarning (Num 1)], True),
           ([OnTimeout], False),
           ([], False)]"
  using countdown_scenario [of "(new_Idle :: unit world)\<lparr>idle := 1, timeoutVal := 3\<rparr>" 0]
  by (simp add: others_def new_Idle_def numeral_2_eq_2)

text \<open>
  The sequence the specification gives (idle-start alone, then the warnings carrying 2, 1 and 0,
  then the timeout on a fifth tick) is not what the freshly constructed controller emits: the
  fourth tick does not emit a warning carrying 0, and the fifth does not emit the timeout.
\<close>

theorem countdown_scenario_counterexample:
  "map_option (map fst)
     (tick_seconds 2 5 (watch ((new_Idle :: unit world)\<lparr>idle := 1, timeoutVal := 3\<rparr>))) \<noteq>
   Some [[OnIdleStart],
         [OnTimeoutWarning (Num 2)],
         [OnTimeoutWarning (Num 1)],
         [OnTimeoutWarning (Num 0)],
         [OnTimeout]] \<and>
   map_option (\<lambda>obs. fst (obs ! 3))
     (tick_seconds 2 5 (watch ((new_Idle :: unit world)\<lparr>idle := 1, timeoutVal := 3\<rparr>))) \<noteq>
   Some [OnTimeoutWarning (Num 0)] \<and>
   map_option (\<lambda>obs. fst (obs ! 4))
     (tick_seconds 2 5 (watch ((new_Idle :: unit world)\<lparr>idle := 1, timeoutVal := 3\<rparr>))) \<noteq>
   Some [OnTimeout]"
  by (simp add: eval_nat_numeral advance_def fire_def reschedule_def emitted_since_def
      toggleState_eq doCountdown_eq timeout_eq watch_eq others_def new_Idle_def)

end
